theory Spec2Isabelle
  imports Main "HOL-Library.Multiset" "HOL-Library.AList"
begin

section \<open>Python values and built-ins used by the notebooks\<close>

text \<open>
  The notebooks are straight-line Python scripts. Every exception a cell can raise is a
  value of \<open>py_error\<close>; a computation that may raise has a result of type
  \<open>py_error + 'a\<close>, with \<open>Inl\<close> for the exception.
\<close>

datatype py_error =
    IndexError
  | KeyError
  | ValueError
  | TypeError
  | AttributeError
  | AssertionError
  | FileNotFoundError
  | ClientError string

subsection \<open>Lists: indexing, \<open>insert\<close>, \<open>del\<close>\<close>

text \<open>
  \<open>xs[i]\<close> and \<open>del xs[i]\<close>: a negative index counts from the end; an index outside
  the list raises \<open>IndexError\<close>.
\<close>

definition py_index :: "'a list \<Rightarrow> int \<Rightarrow> py_error + nat" where
  "py_index xs i =
     (if 0 \<le> i \<and> i < int (length xs) then Inr (nat i)
      else if i < 0 \<and> - int (length xs) \<le> i then Inr (nat (int (length xs) + i))
      else Inl IndexError)"

definition py_getitem :: "'a list \<Rightarrow> int \<Rightarrow> py_error + 'a" where
  "py_getitem xs i = (case py_index xs i of Inl e \<Rightarrow> Inl e | Inr j \<Rightarrow> Inr (xs ! j))"

definition py_delitem :: "'a list \<Rightarrow> int \<Rightarrow> py_error + 'a list" where
  "py_delitem xs i =
     (case py_index xs i of Inl e \<Rightarrow> Inl e | Inr j \<Rightarrow> Inr (take j xs @ drop (Suc j) xs))"

text \<open>
  \<open>xs.insert(i, x)\<close> never raises: the index is clipped to the list (a negative one
  counts from the end and is clipped at 0).
\<close>

definition py_insert :: "'a list \<Rightarrow> int \<Rightarrow> 'a \<Rightarrow> 'a list" where
  "py_insert xs i x =
     (let n = int (length xs); j = (if i < 0 then max 0 (n + i) else min i n)
      in take (nat j) xs @ x # drop (nat j) xs)"

subsection \<open>Strings: \<open>split\<close>, \<open>int\<close>, \<open>rfind\<close>, slices\<close>

text \<open>
  \<open>s.split(c)\<close> for a one-character separator: the pieces between the occurrences of
  \<open>c\<close>, empty pieces kept; the empty string gives one empty piece.
\<close>

fun py_split :: "char \<Rightarrow> string \<Rightarrow> string list" where
  "py_split c [] = [[]]"
| "py_split c (x # xs) =
     (if x = c then [] # py_split c xs
      else (case py_split c xs of [] \<Rightarrow> [[x]] | w # ws \<Rightarrow> (x # w) # ws))"

definition is_digit :: "char \<Rightarrow> bool" where
  "is_digit c = (48 \<le> (of_char c :: nat) \<and> (of_char c :: nat) \<le> 57)"

definition digit_of :: "char \<Rightarrow> nat" where
  "digit_of c = (of_char c :: nat) - 48"

text \<open>
  \<open>int(s)\<close> on a string of ASCII decimal digits, read left to right; the empty string
  and a string with any other character raise \<open>ValueError\<close>. (Python's \<open>int\<close> also
  takes a sign, surrounding blanks and underscores between digits; a component of a
  version string is a run of digits, and no statement below is about the other forms.)
\<close>

definition py_int :: "string \<Rightarrow> py_error + int" where
  "py_int s =
     (if s \<noteq> [] \<and> list_all is_digit s
      then Inr (int (foldl (\<lambda>a c. 10 * a + digit_of c) 0 s))
      else Inl ValueError)"

text \<open>\<open>map(f, xs)\<close> forced by \<open>tuple\<close>: the first exception ends it.\<close>

fun py_map :: "('a \<Rightarrow> py_error + 'b) \<Rightarrow> 'a list \<Rightarrow> py_error + 'b list" where
  "py_map f [] = Inr []"
| "py_map f (x # xs) =
     (case f x of
        Inl e \<Rightarrow> Inl e
      | Inr y \<Rightarrow> (case py_map f xs of Inl e \<Rightarrow> Inl e | Inr ys \<Rightarrow> Inr (y # ys)))"

text \<open>
  \<open>a < b\<close> on tuples of integers: the first position where they differ decides; when
  one is a prefix of the other, the shorter is the smaller.
\<close>

fun tuple_lt :: "int list \<Rightarrow> int list \<Rightarrow> bool" where
  "tuple_lt [] [] = False"
| "tuple_lt [] (y # ys) = True"
| "tuple_lt (x # xs) [] = False"
| "tuple_lt (x # xs) (y # ys) = (if x = y then tuple_lt xs ys else x < y)"

text \<open>
  \<open>s.rfind(c)\<close>: the index of the last occurrence of the character, \<open>-1\<close> when there is
  none.
\<close>

fun rfind_from :: "char \<Rightarrow> string \<Rightarrow> int \<Rightarrow> int \<Rightarrow> int" where
  "rfind_from c [] i found = found"
| "rfind_from c (x # xs) i found = rfind_from c xs (i + 1) (if x = c then i else found)"

definition py_rfind :: "string \<Rightarrow> char \<Rightarrow> int" where
  "py_rfind s c = rfind_from c s 0 (-1)"

text \<open>
  \<open>s[0:k]\<close>: a negative bound counts from the end, and the bound is clipped to the
  string; slicing never raises.
\<close>

definition py_slice_to :: "'a list \<Rightarrow> int \<Rightarrow> 'a list" where
  "py_slice_to s k = (if k < 0 then take (nat (int (length s) + k)) s else take (nat k) s)"

section \<open>The SDK version gate (first cell of every notebook)\<close>

text \<open>
  \<^verbatim>\<open>
  required_version = '2.46.0'
  def versiontuple(v):
      return tuple(map(int, (v.split("."))))
  if versiontuple(sagemaker.__version__) < versiontuple(required_version):
      !{sys.executable} -m pip install -U sagemaker=={required_version}
      IPython.Application.instance().kernel.do_shutdown(True)
  \<close>
\<close>

definition required_version :: string where
  "required_version = ''2.46.0''"

definition versiontuple :: "string \<Rightarrow> py_error + int list" where
  "versiontuple v = py_map py_int (py_split CHR ''.'' v)"

text \<open>The condition of the \<open>if\<close>: both tuples are built, then compared.\<close>

definition version_older :: "string \<Rightarrow> string \<Rightarrow> py_error + bool" where
  "version_older a b =
     (case versiontuple a of
        Inl e \<Rightarrow> Inl e
      | Inr ta \<Rightarrow> (case versiontuple b of Inl e \<Rightarrow> Inl e | Inr tb \<Rightarrow> Inr (tuple_lt ta tb)))"

datatype gate_outcome = Upgrade_and_restart | Proceed

definition version_gate :: "string \<Rightarrow> py_error + gate_outcome" where
  "version_gate installed =
     (case version_older installed required_version of
        Inl e \<Rightarrow> Inl e
      | Inr older \<Rightarrow> Inr (if older then Upgrade_and_restart else Proceed))"

subsection \<open>Version strings, as the specification reads them\<close>

text \<open>
  A version string is a non-empty list of non-empty runs of decimal digits written with
  dots between them. The number a run of digits denotes is given positionally: a digit
  followed by \<open>k\<close> more digits counts \<open>10 ^ k\<close> times its value.
\<close>

definition digits :: "string \<Rightarrow> bool" where
  "digits s = (s \<noteq> [] \<and> list_all is_digit s)"

fun decimal :: "string \<Rightarrow> nat" where
  "decimal [] = 0"
| "decimal (c # cs) = digit_of c * 10 ^ length cs + decimal cs"

fun dotted :: "string list \<Rightarrow> string" where
  "dotted [] = []"
| "dotted [d] = d"
| "dotted (d # e # es) = d @ CHR ''.'' # dotted (e # es)"

section \<open>Reordering the features of the baseline files\<close>

text \<open>
  \<^verbatim>\<open>
  loaded_statistics['features'].insert(0, loaded_statistics['features'][-1])
  del loaded_statistics['features'][-1]
  \<close>
  The same two statements run on the constraints file. The argument \<open>features[-1]\<close> is
  evaluated first and raises on an empty list, before anything is inserted.
\<close>

definition reorder_features :: "'a list \<Rightarrow> py_error + 'a list" where
  "reorder_features features =
     (case py_getitem features (-1) of
        Inl e \<Rightarrow> Inl e
      | Inr l \<Rightarrow> py_delitem (py_insert features 0 l) (-1))"

section \<open>Deploying from the registry: where the inference code is uploaded\<close>

text \<open>
  \<^verbatim>\<open>
  sklearn_model_path = sklearn_model_data[0:sklearn_model_data.rfind('/')] + '/'
  xgboost_model_path = xgboost_model_data[0:sklearn_model_data.rfind('/')] + '/'
  \<close>
  Both slices are cut at the index found in \<open>sklearn_model_data\<close>.
\<close>

definition sklearn_model_path :: "string \<Rightarrow> string" where
  "sklearn_model_path sklearn_model_data =
     py_slice_to sklearn_model_data (py_rfind sklearn_model_data CHR ''/'') @ ''/''"

definition xgboost_model_path :: "string \<Rightarrow> string \<Rightarrow> string" where
  "xgboost_model_path sklearn_model_data xgboost_model_data =
     py_slice_to xgboost_model_data (py_rfind sklearn_model_data CHR ''/'') @ ''/''"

subsection \<open>Parent directory and base name, as the specification reads them\<close>

text \<open>
  The parent-directory prefix of a URI is everything up to and including its last
  \<open>/\<close>; the base name is what follows the last \<open>/\<close>.
\<close>

definition parent_prefix :: "string \<Rightarrow> string" where
  "parent_prefix s = rev (dropWhile (\<lambda>c. c \<noteq> CHR ''/'') (rev s))"

definition basename :: "string \<Rightarrow> string" where
  "basename s = rev (takeWhile (\<lambda>c. c \<noteq> CHR ''/'') (rev s))"

section \<open>Service replies and JSON documents\<close>

text \<open>
  The replies of the service clients and the JSON files are nested Python values:
  \<open>None\<close>, strings, integers, lists and dictionaries with string keys. A dictionary is
  an association list, in insertion order, without repeated keys.
\<close>

datatype pyval =
    PNone
  | PStr string
  | PInt int
  | PList "pyval list"
  | PDict "(string \<times> pyval) list"

text \<open>
  \<open>d[k]\<close> and \<open>del d[k]\<close> raise \<open>KeyError\<close> on a missing key; \<open>d.pop(k, None)\<close> never
  raises; \<open>d[k] = v\<close> replaces the value in place or appends the key
  (\<open>AList.update\<close>). Subscripting anything but a dictionary with a string raises
  \<open>TypeError\<close>.
\<close>

definition dict_get :: "(string \<times> pyval) list \<Rightarrow> string \<Rightarrow> py_error + pyval" where
  "dict_get d k = (case map_of d k of None \<Rightarrow> Inl KeyError | Some v \<Rightarrow> Inr v)"

definition dict_del :: "(string \<times> pyval) list \<Rightarrow> string \<Rightarrow> py_error + (string \<times> pyval) list" where
  "dict_del d k = (case map_of d k of None \<Rightarrow> Inl KeyError | Some v \<Rightarrow> Inr (AList.delete k d))"

definition dict_pop_default :: "(string \<times> pyval) list \<Rightarrow> string \<Rightarrow> (string \<times> pyval) list" where
  "dict_pop_default d k = AList.delete k d"

definition py_subscript :: "pyval \<Rightarrow> string \<Rightarrow> py_error + pyval" where
  "py_subscript v k = (case v of PDict d \<Rightarrow> dict_get d k | _ \<Rightarrow> Inl TypeError)"

definition as_dict :: "pyval \<Rightarrow> py_error + (string \<times> pyval) list" where
  "as_dict v = (case v of PDict d \<Rightarrow> Inr d | _ \<Rightarrow> Inl TypeError)"

text \<open>\<open>v[i]\<close> with an integer: an element of a list, a character of a string.\<close>

definition py_item :: "pyval \<Rightarrow> int \<Rightarrow> py_error + pyval" where
  "py_item v i =
     (case v of
        PList xs \<Rightarrow> py_getitem xs i
      | PStr s \<Rightarrow> (case py_getitem s i of Inl e \<Rightarrow> Inl e | Inr c \<Rightarrow> Inr (PStr [c]))
      | PDict d \<Rightarrow> Inl KeyError
      | _ \<Rightarrow> Inl TypeError)"

section \<open>Data exploration notebook: the table schema\<close>

text \<open>
  \<^verbatim>\<open>
  del table['Table']['CatalogId']
  table['Table']['StorageDescriptor']['Columns'] = [{'Name': 'turbine_id', 'Type': 'string'}, ...]
  updated_table = table['Table']
  updated_table.pop('DatabaseName', None)
  updated_table.pop('CreateTime', None)
  updated_table.pop('UpdateTime', None)
  updated_table.pop('CreatedBy', None)
  updated_table.pop('IsRegisteredWithLakeFormation', None)
  glue_client.update_table(DatabaseName='endtoendml-db', TableInput=updated_table)
  \<close>
  \<open>update_table_cell\<close> takes the reply of \<open>get_table\<close> and returns the \<open>TableInput\<close> that
  is sent to the catalog.
\<close>

definition column :: "string \<Rightarrow> string \<Rightarrow> pyval" where
  "column n t = PDict [(''Name'', PStr n), (''Type'', PStr t)]"

definition new_columns :: "pyval list" where
  "new_columns =
     [column ''turbine_id'' ''string'',
      column ''turbine_type'' ''string'',
      column ''wind_speed'' ''double'',
      column ''rpm_blade'' ''double'',
      column ''oil_temperature'' ''double'',
      column ''oil_level'' ''double'',
      column ''temperature'' ''double'',
      column ''humidity'' ''double'',
      column ''vibrations_frequency'' ''double'',
      column ''pressure'' ''double'',
      column ''wind_direction'' ''string'',
      column ''breakdown'' ''string'']"

definition update_table_cell :: "pyval \<Rightarrow> py_error + pyval" where
  "update_table_cell table =
     (case py_subscript table ''Table'' of Inl e \<Rightarrow> Inl e | Inr tv \<Rightarrow>
      case as_dict tv of Inl e \<Rightarrow> Inl e | Inr t0 \<Rightarrow>
      case dict_del t0 ''CatalogId'' of Inl e \<Rightarrow> Inl e | Inr t1 \<Rightarrow>
      case dict_get t1 ''StorageDescriptor'' of Inl e \<Rightarrow> Inl e | Inr sdv \<Rightarrow>
      case as_dict sdv of Inl e \<Rightarrow> Inl e | Inr sd \<Rightarrow>
        let t2 = AList.update ''StorageDescriptor''
                   (PDict (AList.update ''Columns'' (PList new_columns) sd)) t1;
            t3 = dict_pop_default t2 ''DatabaseName'';
            t4 = dict_pop_default t3 ''CreateTime'';
            t5 = dict_pop_default t4 ''UpdateTime'';
            t6 = dict_pop_default t5 ''CreatedBy'';
            t7 = dict_pop_default t6 ''IsRegisteredWithLakeFormation''
        in Inr (PDict t7))"

text \<open>What the catalog holds after the update: the columns of the table input.\<close>

definition registered_columns :: "pyval \<Rightarrow> py_error + pyval" where
  "registered_columns table_input =
     (case py_subscript table_input ''StorageDescriptor'' of
        Inl e \<Rightarrow> Inl e
      | Inr sd \<Rightarrow> py_subscript sd ''Columns'')"

definition column_type :: "pyval \<Rightarrow> string" where
  "column_type c = (case py_subscript c ''Type'' of Inr (PStr t) \<Rightarrow> t | _ \<Rightarrow> [])"

definition column_name :: "pyval \<Rightarrow> string" where
  "column_name c = (case py_subscript c ''Name'' of Inr (PStr t) \<Rightarrow> t | _ \<Rightarrow> [])"

text \<open>A reply of \<open>get_table\<close> for the table the crawler made, cut to a few keys.\<close>

definition sample_table :: pyval where
  "sample_table = PDict [(''Table'', PDict
      [(''Name'', PStr ''raw''),
       (''DatabaseName'', PStr ''endtoendml-db''),
       (''CreatedBy'', PStr ''crawler''),
       (''StorageDescriptor'', PDict
          [(''Columns'', PList [column ''col0'' ''string'', column ''col1'' ''bigint'']),
           (''Location'', PStr ''s3://bucket/endtoendmlsm/data/raw/'')]),
       (''CatalogId'', PStr ''123456789012'')])]"

definition registered_types :: "pyval \<Rightarrow> string list" where
  "registered_types table =
     (case update_table_cell table of
        Inl e \<Rightarrow> []
      | Inr ti \<Rightarrow> (case registered_columns ti of Inr (PList cs) \<Rightarrow> map column_type cs | _ \<Rightarrow> []))"

definition sample_table_input :: pyval where
  "sample_table_input = PDict
      [(''Name'', PStr ''raw''),
       (''StorageDescriptor'', PDict
          [(''Columns'', PList new_columns),
           (''Location'', PStr ''s3://bucket/endtoendmlsm/data/raw/'')])]"

section \<open>Deploy and monitor notebook: switching the order of the target variable\<close>

text \<open>
  \<^verbatim>\<open>
  statistics_path = baseline_results_path + '/statistics.json'
  constraints_path = baseline_results_path + '/constraints.json'
  !aws s3 cp {statistics_path} baseline/
  !aws s3 cp {constraints_path} baseline/
  with open('baseline/statistics.json', 'r') as statistics_file:
      loaded_statistics = json.load(statistics_file)
  loaded_statistics['features'].insert(0, loaded_statistics['features'][-1])
  del loaded_statistics['features'][-1]
  with open('baseline/statistics.json', 'w') as statistics_file:
      json.dump(loaded_statistics, statistics_file)
  !aws s3 cp baseline/statistics.json {statistics_path}
  (the same for constraints.json)
  \<close>
  The state is the object store and the files of the notebook instance, both as maps
  from a name to the document stored there. A shell command that fails (the object or
  the file is missing) prints an error and raises nothing: the state stays as it is.
\<close>

record world =
  s3 :: "string \<rightharpoonup> pyval"
  local_files :: "string \<rightharpoonup> pyval"

definition prefix :: string where
  "prefix = ''endtoendmlsm''"

















section \<open>Data exploration notebook: running the crawler\<close>

text \<open>
  \<^verbatim>\<open>
  glue_client.start_crawler(Name='endtoendml-crawler')
  while glue_client.get_crawler_metrics(CrawlerNameList=['endtoendml-crawler'])
            ['CrawlerMetricsList'][0]['TablesCreated'] == 0:
      print('RUNNING')
      time.sleep(15)
  assert glue_client.get_crawler_metrics(CrawlerNameList=['endtoendml-crawler'])
            ['CrawlerMetricsList'][0]['TablesCreated'] == 1
  \<close>
  The remote service is a function from the number of \<open>get_crawler_metrics\<close> calls made
  so far to the reply of the next call (an exception or a reply document). The loop
  state counts the calls made and the seconds slept (the lines printed are left out).
  The loop has no bound on its iterations, so it is a partial function: \<open>None\<close> means that it never returns.
\<close>

definition tables_created :: "py_error + pyval \<Rightarrow> py_error + pyval" where
  "tables_created reply =
     (case reply of Inl e \<Rightarrow> Inl e | Inr r \<Rightarrow>
      case py_subscript r ''CrawlerMetricsList'' of Inl e \<Rightarrow> Inl e | Inr l \<Rightarrow>
      case py_item l 0 of Inl e \<Rightarrow> Inl e | Inr m \<Rightarrow>
        py_subscript m ''TablesCreated'')"

record poll_state =
  calls :: nat
  slept :: nat

partial_function (option)
  crawler_poll :: "(nat \<Rightarrow> py_error + pyval) \<Rightarrow> poll_state \<Rightarrow> (py_error + poll_state) option"
where
  "crawler_poll glue st =
     (case tables_created (glue (calls st)) of
        Inl e \<Rightarrow> Some (Inl e)
      | Inr v \<Rightarrow>
          if v = PInt 0
          then crawler_poll glue (st\<lparr>calls := Suc (calls st), slept := slept st + 15\<rparr>)
          else Some (Inr (st\<lparr>calls := Suc (calls st)\<rparr>)))"

text \<open>The condition of the \<open>while\<close> at the \<open>k\<close>-th call: the reply says no table yet.\<close>

definition still_running :: "(nat \<Rightarrow> py_error + pyval) \<Rightarrow> nat \<Rightarrow> bool" where
  "still_running glue k = (tables_created (glue k) = Inr (PInt 0))"

text \<open>
  The whole cell: \<open>start_crawler\<close> may raise; after the loop one more call feeds the
  \<open>assert\<close>.
\<close>

definition start_crawler_cell ::
  "py_error + unit \<Rightarrow> (nat \<Rightarrow> py_error + pyval) \<Rightarrow> (py_error + poll_state) option" where
  "start_crawler_cell started glue =
     (case started of
        Inl e \<Rightarrow> Some (Inl e)
      | Inr _ \<Rightarrow>
          (case crawler_poll glue \<lparr>calls = 0, slept = 0\<rparr> of
             None \<Rightarrow> None
           | Some (Inl e) \<Rightarrow> Some (Inl e)
           | Some (Inr st) \<Rightarrow>
               (case tables_created (glue (calls st)) of
                  Inl e \<Rightarrow> Some (Inl e)
                | Inr v \<Rightarrow>
                    if v = PInt 1 then Some (Inr (st\<lparr>calls := Suc (calls st)\<rparr>))
                    else Some (Inl AssertionError))))"

text \<open>Replies of the service: one metrics entry with a given \<open>TablesCreated\<close>.\<close>

definition crawler_metrics :: "int \<Rightarrow> pyval" where
  "crawler_metrics n =
     PDict [(''CrawlerMetricsList'',
             PList [PDict [(''CrawlerName'', PStr ''endtoendml-crawler''),
                           (''TablesCreated'', PInt n)]])]"

definition no_tables_ever :: "nat \<Rightarrow> py_error + pyval" where
  "no_tables_ever k = Inr (crawler_metrics 0)"

definition two_tables_at_once :: "nat \<Rightarrow> py_error + pyval" where
  "two_tables_at_once k = Inr (crawler_metrics 2)"

definition table_on_third_poll :: "nat \<Rightarrow> py_error + pyval" where
  "table_on_third_poll k = Inr (crawler_metrics (if k < 2 then 0 else 1))"

section \<open>Deploy and monitor notebook: listing capture files and monitoring reports\<close>

text \<open>
  \<^verbatim>\<open>
  result = s3_client.list_objects(Bucket=bucket_name, Prefix=current_endpoint_capture_prefix)
  capture_files = ['s3://{0}/{1}'.format(bucket_name, capture_file.get("Key"))
                   for capture_file in result.get('Contents')]
  print("Capture Files: ")
  print("\n ".join(capture_files))
  \<close>
  and, for the monitoring reports,
  \<^verbatim>\<open>
  result = s3_client.list_objects(Bucket=bucket_name, Prefix=monitoring_reports_prefix)
  try:
      monitoring_reports = ['s3://{0}/{1}'.format(bucket_name, capture_file.get("Key"))
                            for capture_file in result.get('Contents')]
      print("Monitoring Reports Files: ")
      print("\n ".join(monitoring_reports))
  except:
      print('No monitoring reports found.')
  \<close>
  A reply of \<open>list_objects\<close> has the key \<open>Contents\<close> only when some object matches the
  prefix; otherwise \<open>result.get('Contents')\<close> is \<open>None\<close>, and iterating over it raises
  \<open>TypeError\<close>. The output of a cell is the list it binds (if it gets that far) and
  the lines it prints.
\<close>

record s3_object =
  Key :: "string option"

record list_objects_output =
  Contents :: "s3_object list option"

fun py_join :: "string \<Rightarrow> string list \<Rightarrow> string" where
  "py_join sep [] = []"
| "py_join sep [x] = x"
| "py_join sep (x # y # ys) = x @ sep @ py_join sep (y # ys)"

definition s3_uri :: "string \<Rightarrow> s3_object \<Rightarrow> string" where
  "s3_uri bucket_name capture_file =
     ''s3://'' @ bucket_name @ ''/'' @ (case Key capture_file of None \<Rightarrow> ''None'' | Some k \<Rightarrow> k)"

definition list_uris :: "string \<Rightarrow> list_objects_output \<Rightarrow> py_error + string list" where
  "list_uris bucket_name result =
     (case Contents result of
        None \<Rightarrow> Inl TypeError
      | Some cs \<Rightarrow> Inr (map (s3_uri bucket_name) cs))"

record cell_output =
  bound :: "string list option"
  printed :: "string list"

definition capture_files_cell ::
  "string \<Rightarrow> py_error + list_objects_output \<Rightarrow> py_error + cell_output" where
  "capture_files_cell bucket_name reply =
     (case reply of
        Inl e \<Rightarrow> Inl e
      | Inr result \<Rightarrow>
          (case list_uris bucket_name result of
             Inl e \<Rightarrow> Inl e
           | Inr capture_files \<Rightarrow>
               Inr \<lparr>bound = Some capture_files,
                    printed = [''Capture Files: '', py_join [CHR 0x0A, CHR '' ''] capture_files]\<rparr>))"

definition reports_try_body :: "string \<Rightarrow> list_objects_output \<Rightarrow> py_error + cell_output" where
  "reports_try_body bucket_name result =
     (case list_uris bucket_name result of
        Inl e \<Rightarrow> Inl e
      | Inr monitoring_reports \<Rightarrow>
          Inr \<lparr>bound = Some monitoring_reports,
               printed = [''Monitoring Reports Files: '',
                          py_join [CHR 0x0A, CHR '' ''] monitoring_reports]\<rparr>)"

definition monitoring_reports_cell ::
  "string \<Rightarrow> py_error + list_objects_output \<Rightarrow> py_error + cell_output" where
  "monitoring_reports_cell bucket_name reply =
     (case reply of
        Inl e \<Rightarrow> Inl e
      | Inr result \<Rightarrow>
          (case reports_try_body bucket_name result of
             Inl e \<Rightarrow> Inr \<lparr>bound = None, printed = [''No monitoring reports found.'']\<rparr>
           | Inr out \<Rightarrow> Inr out))"

definition nothing_delivered :: list_objects_output where
  "nothing_delivered = \<lparr>Contents = None\<rparr>"

section \<open>Workflow notebook: the pipeline definition\<close>

text \<open>
  An argument of a step is a literal, a pipeline parameter (with its name and default
  value), the URI of an output of a processing step
  (\<open>step.properties.ProcessingOutputConfig.Outputs[name].S3Output.S3Uri\<close>) or the model
  artifacts of a training step (\<open>step.properties.ModelArtifacts.S3ModelArtifacts\<close>).
\<close>

datatype expr =
    Lit pyval
  | Parameter string pyval
  | Processing_output_uri string string
  | Model_artifacts string

definition ParameterString :: "string \<Rightarrow> string \<Rightarrow> expr" where
  "ParameterString name default_value = Parameter name (PStr default_value)"

definition ParameterInteger :: "string \<Rightarrow> int \<Rightarrow> expr" where
  "ParameterInteger name default_value = Parameter name (PInt default_value)"

definition raw_data_path_param :: "string \<Rightarrow> expr" where
  "raw_data_path_param bucket_name =
     ParameterString ''raw_data_path'' (''s3://'' @ bucket_name @ ''/'' @ prefix @ ''/data/raw/'')"

definition train_data_path_param :: "string \<Rightarrow> expr" where
  "train_data_path_param bucket_name =
     ParameterString ''train_data_path''
       (''s3://'' @ bucket_name @ ''/'' @ prefix @ ''/data/preprocessed/train/'')"

definition val_data_path_param :: "string \<Rightarrow> expr" where
  "val_data_path_param bucket_name =
     ParameterString ''val_data_path''
       (''s3://'' @ bucket_name @ ''/'' @ prefix @ ''/data/preprocessed/val/'')"

definition model_path_param :: "string \<Rightarrow> expr" where
  "model_path_param bucket_name =
     ParameterString ''model_path'' (''s3://'' @ bucket_name @ ''/'' @ prefix @ ''/output/sklearn/'')"

definition processing_instance_type_param :: expr where
  "processing_instance_type_param = ParameterString ''processing_instance_type'' ''ml.m5.large''"

definition processing_instance_count_param :: expr where
  "processing_instance_count_param = ParameterInteger ''processing_instance_count'' 1"

definition train_test_split_ratio_param :: expr where
  "train_test_split_ratio_param = ParameterString ''train_test_split_ratio'' ''0.2''"

definition max_depth_param :: expr where
  "max_depth_param = ParameterString ''max_depth'' ''3''"

definition eta_param :: expr where
  "eta_param = ParameterString ''eta'' ''0.1''"

definition gamma_param :: expr where
  "gamma_param = ParameterString ''gamma'' ''0''"

definition min_child_weight_param :: expr where
  "min_child_weight_param = ParameterString ''min_child_weight'' ''1''"

definition objective_param :: expr where
  "objective_param = ParameterString ''objective'' ''binary:logistic''"

definition num_round_param :: expr where
  "num_round_param = ParameterString ''num_round'' ''10''"

definition scale_pos_weight_param :: expr where
  "scale_pos_weight_param = ParameterString ''scale_pos_weight'' ''6.32''"

definition eval_metric_param :: expr where
  "eval_metric_param = ParameterString ''eval_metric'' ''auc''"

definition training_instance_type_param :: expr where
  "training_instance_type_param = ParameterString ''training_instance_type'' ''ml.m5.xlarge''"

definition training_instance_count_param :: expr where
  "training_instance_count_param = ParameterInteger ''training_instance_count'' 1"

definition output_path_param :: "string \<Rightarrow> expr" where
  "output_path_param bucket_name =
     ParameterString ''output_path'' (''s3://'' @ bucket_name @ ''/'' @ prefix @ ''/output/'')"

definition deploy_instance_type_param :: expr where
  "deploy_instance_type_param = ParameterString ''deploy_instance_type'' ''ml.m5.2xlarge''"

definition model_approval_status_param :: expr where
  "model_approval_status_param =
     ParameterString ''model_approval_status'' ''PendingManualApproval''"

text \<open>
  A step, as far as an execution depends on it: its name, the hyperparameters of its
  estimator, its input channels, its outputs (name and destination) and its other
  arguments that may be parameters (instance types and counts, job arguments, output
  path, approval status).
\<close>

record step =
  step_name :: string
  hyperparameters_of :: "(string \<times> expr) list"
  inputs_of :: "(string \<times> expr) list"
  outputs_of :: "(string \<times> expr) list"
  arguments_of :: "expr list"

text \<open>
  \<^verbatim>\<open>
  hyperparameters = {"max_depth": max_depth_param, "eta": eta_param, "gamma": gamma_param,
      "min_child_weight": min_child_weight_param, "silent": 0, "objective": objective_param,
      "num_round": num_round_param, "scale_pos_weight": scale_pos_weight_param,
      "eval_metric": eval_metric_param}
  \<close>
\<close>

definition hyperparameters :: "(string \<times> expr) list" where
  "hyperparameters =
     [(''max_depth'', max_depth_param),
      (''eta'', eta_param),
      (''gamma'', gamma_param),
      (''min_child_weight'', min_child_weight_param),
      (''silent'', Lit (PInt 0)),
      (''objective'', objective_param),
      (''num_round'', num_round_param),
      (''scale_pos_weight'', scale_pos_weight_param),
      (''eval_metric'', eval_metric_param)]"

definition processing_step :: "string \<Rightarrow> step" where
  "processing_step bucket_name =
     \<lparr>step_name = ''Processing'',
      hyperparameters_of = [],
      inputs_of = [(''raw_data'', raw_data_path_param bucket_name)],
      outputs_of = [(''train_data'', train_data_path_param bucket_name),
                    (''val_data'', val_data_path_param bucket_name),
                    (''model'', model_path_param bucket_name)],
      arguments_of = [processing_instance_type_param, processing_instance_count_param,
                      Lit (PStr ''--train-test-split-ratio''), train_test_split_ratio_param]\<rparr>"

text \<open>
  \<^verbatim>\<open>
  training_step = TrainingStep(name='Training', estimator=estimator, inputs={
      'train': TrainingInput(s3_data=processing_step.properties.ProcessingOutputConfig
                   .Outputs['train_data'].S3Output.S3Uri, content_type='text/csv'),
      'validation': TrainingInput(s3_data=processing_step.properties.ProcessingOutputConfig
                   .Outputs['val_data'].S3Output.S3Uri, content_type='text/csv')})
  \<close>
\<close>

definition training_step :: "string \<Rightarrow> step" where
  "training_step bucket_name =
     \<lparr>step_name = ''Training'',
      hyperparameters_of = hyperparameters,
      inputs_of = [(''train'', Processing_output_uri ''Processing'' ''train_data''),
                   (''validation'', Processing_output_uri ''Processing'' ''val_data'')],
      outputs_of = [],
      arguments_of = [output_path_param bucket_name, training_instance_type_param,
                      training_instance_count_param]\<rparr>"

definition register_featurizer_step :: step where
  "register_featurizer_step =
     \<lparr>step_name = ''RegisterFeaturizerModel'',
      hyperparameters_of = [],
      inputs_of = [(''model_data'', Processing_output_uri ''Processing'' ''model'')],
      outputs_of = [],
      arguments_of = [deploy_instance_type_param, model_approval_status_param]\<rparr>"

definition register_xgboost_step :: step where
  "register_xgboost_step =
     \<lparr>step_name = ''RegisterXGBoostModel'',
      hyperparameters_of = [],
      inputs_of = [(''model_data'', Model_artifacts ''Training'')],
      outputs_of = [],
      arguments_of = [deploy_instance_type_param, model_approval_status_param]\<rparr>"

record pipeline_def =
  parameters :: "expr list"
  steps :: "step list"

definition pipeline :: "string \<Rightarrow> pipeline_def" where
  "pipeline bucket_name =
     \<lparr>parameters =
        [raw_data_path_param bucket_name,
         train_data_path_param bucket_name,
         val_data_path_param bucket_name,
         model_path_param bucket_name,
         processing_instance_type_param,
         processing_instance_count_param,
         train_test_split_ratio_param,
         max_depth_param,
         eta_param,
         gamma_param,
         min_child_weight_param,
         objective_param,
         num_round_param,
         scale_pos_weight_param,
         eval_metric_param,
         training_instance_type_param,
         training_instance_count_param,
         output_path_param bucket_name,
         deploy_instance_type_param,
         model_approval_status_param],
      steps = [processing_step bucket_name, training_step bucket_name,
               register_featurizer_step, register_xgboost_step]\<rparr>"


subsection \<open>What an execution does with the definition\<close>



fun value_of :: "(string \<times> pyval) list \<Rightarrow> expr \<Rightarrow> pyval option" where
  "value_of given (Lit v) = Some v"
| "value_of given (Parameter n d) = (case map_of given n of None \<Rightarrow> Some d | Some v \<Rightarrow> Some v)"
| "value_of given _ = None"

definition find_step :: "pipeline_def \<Rightarrow> string \<Rightarrow> step option" where
  "find_step p n = find (\<lambda>s. step_name s = n) (steps p)"

fun resolve :: "pipeline_def \<Rightarrow> (string \<times> pyval) list \<Rightarrow> expr \<Rightarrow> pyval option" where
  "resolve p given (Processing_output_uri s out) =
     (case find_step p s of
        None \<Rightarrow> None
      | Some st \<Rightarrow> (case map_of (outputs_of st) out of None \<Rightarrow> None | Some d \<Rightarrow> value_of given d))"
| "resolve p given e = value_of given e"






subsection \<open>The order of the steps in an execution\<close>

text \<open>
  The service starts a step only when every step whose properties it refers to has
  completed. A run of the pipeline is a list of start and completion events in which
  each event is allowed by the events before it.
\<close>

datatype event = Started string | Completed string

fun references :: "expr \<Rightarrow> string list" where
  "references (Processing_output_uri s out) = [s]"
| "references (Model_artifacts s) = [s]"
| "references _ = []"

definition depends_on :: "step \<Rightarrow> string list" where
  "depends_on s =
     concat (map references
       (map snd (hyperparameters_of s) @ map snd (inputs_of s) @ map snd (outputs_of s)
        @ arguments_of s))"

fun may_happen :: "pipeline_def \<Rightarrow> event list \<Rightarrow> event \<Rightarrow> bool" where
  "may_happen p past (Started n) =
     (case find_step p n of
        None \<Rightarrow> False
      | Some s \<Rightarrow> Started n \<notin> set past \<and> list_all (\<lambda>d. Completed d \<in> set past) (depends_on s))"
| "may_happen p past (Completed n) = (Started n \<in> set past \<and> Completed n \<notin> set past)"

fun execution_from :: "pipeline_def \<Rightarrow> event list \<Rightarrow> event list \<Rightarrow> bool" where
  "execution_from p past [] = True"
| "execution_from p past (e # es) = (may_happen p past e \<and> execution_from p (past @ [e]) es)"

definition execution :: "pipeline_def \<Rightarrow> event list \<Rightarrow> bool" where
  "execution p tr = execution_from p [] tr"

section \<open>The remote calls of the notebooks\<close>











section \<open>Properties\<close>

subsection \<open>The list built-ins on the last element\<close>

lemma py_getitem_last: "xs \<noteq> [] \<Longrightarrow> py_getitem xs (-1) = Inr (last xs)"
  by (cases xs rule: rev_cases) (simp_all add: py_getitem_def py_index_def Let_def nth_append)

lemma py_getitem_Nil: "py_getitem [] i = Inl IndexError"
  by (simp add: py_getitem_def py_index_def Let_def)

lemma py_insert_front: "py_insert xs 0 x = x # xs"
  by (simp add: py_insert_def Let_def)

lemma py_delitem_last: "xs \<noteq> [] \<Longrightarrow> py_delitem xs (-1) = Inr (butlast xs)"
  by (cases xs rule: rev_cases) (simp_all add: py_delitem_def py_index_def Let_def)

lemma reorder_features_nonempty:
  "xs \<noteq> [] \<Longrightarrow> reorder_features xs = Inr (last xs # butlast xs)"
  by (simp add: reorder_features_def py_getitem_last py_insert_front py_delitem_last)

lemma mset_rotate: "xs \<noteq> [] \<Longrightarrow> mset (last xs # butlast xs) = mset xs"
  by (cases xs rule: rev_cases) simp_all

subsection \<open>The registered table schema\<close>

lemma update_table_cell_columns:
  assumes "update_table_cell table = Inr ti"
  shows "registered_columns ti = Inr (PList new_columns)"
proof -
  from assms obtain t1 sd where
    "ti = PDict
       (dict_pop_default (dict_pop_default (dict_pop_default (dict_pop_default (dict_pop_default
          (AList.update ''StorageDescriptor''
             (PDict (AList.update ''Columns'' (PList new_columns) sd)) t1)
          ''DatabaseName'') ''CreateTime'') ''UpdateTime'') ''CreatedBy'')
          ''IsRegisteredWithLakeFormation'')"
    by (auto simp: update_table_cell_def Let_def split: sum.splits)
  then show ?thesis
    by (simp add: registered_columns_def py_subscript_def dict_get_def dict_pop_default_def
        update_conv')
qed

lemma new_columns_names:
  "map column_name new_columns =
     [''turbine_id'', ''turbine_type'', ''wind_speed'', ''rpm_blade'', ''oil_temperature'',
      ''oil_level'', ''temperature'', ''humidity'', ''vibrations_frequency'', ''pressure'',
      ''wind_direction'', ''breakdown'']"
  by (simp add: new_columns_def column_def column_name_def py_subscript_def dict_get_def)

lemma new_columns_types:
  "map column_type new_columns =
     [''string'', ''string'', ''double'', ''double'', ''double'', ''double'', ''double'',
      ''double'', ''double'', ''double'', ''string'', ''string'']"
  by (simp add: new_columns_def column_def column_type_def py_subscript_def dict_get_def)

lemma sample_table_updated: "update_table_cell sample_table = Inr sample_table_input"
  by (simp add: update_table_cell_def sample_table_def sample_table_input_def
      py_subscript_def as_dict_def dict_del_def dict_get_def dict_pop_default_def Let_def)

text \<open>
  C1, as stated, fails: the schema that the update registers for the sample table has
  eight columns of type \<open>double\<close>, not nine; the column at index 10, \<open>wind_direction\<close>, is
  registered with type \<open>string\<close>.
\<close>

theorem schema_has_eight_doubles:
  "length (filter (\<lambda>t. t = ''double'') (registered_types sample_table)) = 8 \<and>
   length (filter (\<lambda>t. t = ''double'') (registered_types sample_table)) \<noteq> 9 \<and>
   registered_types sample_table ! 10 = ''string''"
  by (simp add: registered_types_def sample_table_updated
      update_table_cell_columns [OF sample_table_updated] new_columns_types)

text \<open>
  C1, amended. Whenever the cell gets as far as \<open>update_table\<close>, the table input it
  sends has exactly the twelve columns of the cell, in this order: \<open>turbine_id\<close> and
  \<open>turbine_type\<close> of type \<open>string\<close>, eight measurement columns of type \<open>double\<close>,
  \<open>wind_direction\<close> of type \<open>string\<close>, and the label \<open>breakdown\<close> of type \<open>string\<close>.
\<close>

theorem registered_schema:
  assumes "update_table_cell table = Inr ti"
  shows "registered_columns ti = Inr (PList new_columns) \<and>
         length new_columns = 12 \<and>
         map column_name new_columns =
           [''turbine_id'', ''turbine_type'', ''wind_speed'', ''rpm_blade'', ''oil_temperature'',
            ''oil_level'', ''temperature'', ''humidity'', ''vibrations_frequency'', ''pressure'',
            ''wind_direction'', ''breakdown''] \<and>
         map column_type new_columns =
           [''string'', ''string'', ''double'', ''double'', ''double'', ''double'', ''double'',
            ''double'', ''double'', ''double'', ''string'', ''string''] \<and>
         length (filter (\<lambda>c. column_type c = ''double'') new_columns) = 8 \<and>
         length (filter (\<lambda>c. column_type c = ''string'') new_columns) = 4"
proof -
  have "length (filter (\<lambda>c. column_type c = ''double'') new_columns)
          = length (filter (\<lambda>t. t = ''double'') (map column_type new_columns))"
    by (simp add: filter_map comp_def)
  then have d: "length (filter (\<lambda>c. column_type c = ''double'') new_columns) = 8"
    by (simp only: new_columns_types) simp
  have "length (filter (\<lambda>c. column_type c = ''string'') new_columns)
          = length (filter (\<lambda>t. t = ''string'') (map column_type new_columns))"
    by (simp add: filter_map comp_def)
  then have s: "length (filter (\<lambda>c. column_type c = ''string'') new_columns) = 4"
    by (simp only: new_columns_types) simp
  have l: "length new_columns = 12"
    by (simp add: new_columns_def)
  from assms d s l show ?thesis
    by (simp add: update_table_cell_columns new_columns_names new_columns_types)
qed

theorem registered_schema_witness:
  "update_table_cell sample_table = Inr sample_table_input \<and>
   registered_columns sample_table_input = Inr (PList new_columns) \<and>
   length new_columns = 12"
  using registered_schema [OF sample_table_updated] sample_table_updated by simp


subsection \<open>The crawler poll loop\<close>

lemma crawler_poll_stops:
  "\<not> still_running glue (calls st + n) \<Longrightarrow> \<exists>r. crawler_poll glue st = Some r"
proof (induction n arbitrary: st)
  case 0
  then show ?case
    by (subst crawler_poll.simps) (auto simp: still_running_def split: sum.splits)
next
  case (Suc n)
  show ?case
  proof (cases "still_running glue (calls st)")
    case True
    from Suc.prems
    have "\<not> still_running glue
             (calls (st\<lparr>calls := Suc (calls st), slept := slept st + 15\<rparr>) + n)"
      by simp
    then have "\<exists>r. crawler_poll glue (st\<lparr>calls := Suc (calls st), slept := slept st + 15\<rparr>) = Some r"
      by (rule Suc.IH)
    with True show ?thesis
      by (subst crawler_poll.simps) (simp add: still_running_def)
  next
    case False
    then show ?thesis
      by (subst crawler_poll.simps) (auto simp: still_running_def split: sum.splits)
  qed
qed

lemma crawler_poll_stopped:
  assumes "crawler_poll glue st = Some r"
  shows "\<exists>k\<ge>calls st. \<not> still_running glue k"
  using assms
proof (induction rule: crawler_poll.raw_induct [rotated 1, consumes 1, case_names step])
  case (step crawler_poll' glue st r)
  note 1 = step
  show ?case
  proof (cases "still_running glue (calls st)")
    case True
    from True 1(2) have "crawler_poll' glue (st\<lparr>calls := Suc (calls st), slept := slept st + 15\<rparr>) = Some r"
      by (simp add: still_running_def)
    then have "\<exists>k\<ge>calls (st\<lparr>calls := Suc (calls st), slept := slept st + 15\<rparr>). \<not> still_running glue k"
      by (rule 1(1))
    then show ?thesis by (auto intro: Suc_leD)
  next
    case False
    then show ?thesis by auto
  qed
qed


lemma crawler_poll_slept:
  assumes "crawler_poll glue st = Some (Inr st')"
  shows "calls st < calls st' \<and> slept st' = slept st + 15 * (calls st' - calls st - 1)"
  using assms
proof (induction glue st "Inr st' :: py_error + poll_state"
    rule: crawler_poll.raw_induct [rotated 1, consumes 1, case_names step])
  case (step crawler_poll' glue st)
  show ?case
  proof (cases "still_running glue (calls st)")
    case True
    from True step(2)
    have "crawler_poll' glue (st\<lparr>calls := Suc (calls st), slept := slept st + 15\<rparr>) = Some (Inr st')"
      by (simp add: still_running_def)
    then have "calls (st\<lparr>calls := Suc (calls st), slept := slept st + 15\<rparr>) < calls st' \<and>
        slept st' = slept (st\<lparr>calls := Suc (calls st), slept := slept st + 15\<rparr>)
          + 15 * (calls st' - calls (st\<lparr>calls := Suc (calls st), slept := slept st + 15\<rparr>) - 1)"
      by (rule step(1))
    then show ?thesis by auto
  next
    case False
    with step(2) show ?thesis
      by (auto simp: still_running_def split: sum.splits if_splits)
  qed
qed

lemma tables_created_metrics: "tables_created (Inr (crawler_metrics n)) = Inr (PInt n)"
  by (simp add: tables_created_def crawler_metrics_def py_subscript_def dict_get_def
      py_item_def py_getitem_def py_index_def)

lemma crawler_poll_never: "crawler_poll no_tables_ever st = None"
proof (cases "crawler_poll no_tables_ever st")
  case (Some r)
  then have "\<exists>k\<ge>calls st. \<not> still_running no_tables_ever k"
    by (rule crawler_poll_stopped)
  then show ?thesis
    by (simp add: still_running_def no_tables_ever_def tables_created_metrics)
qed simp

text \<open>
  C2, as stated, fails: against a service whose \<open>TablesCreated\<close> stays 0 the cell never
  returns; the loop has no timeout.
\<close>

theorem crawler_cell_diverges: "start_crawler_cell (Inr ()) no_tables_ever = None"
  by (simp add: start_crawler_cell_def crawler_poll_never)

lemma cell_diverges_iff:
  "start_crawler_cell (Inr u) glue = None \<longleftrightarrow> (\<forall>k. still_running glue k)"
proof -
  have "start_crawler_cell (Inr u) glue = None
          \<longleftrightarrow> crawler_poll glue \<lparr>calls = 0, slept = 0\<rparr> = None"
    by (simp add: start_crawler_cell_def split: option.splits sum.splits)
  also have "\<dots> \<longleftrightarrow> \<not> (\<exists>k\<ge>calls \<lparr>calls = 0, slept = 0\<rparr>. \<not> still_running glue k)"
    using crawler_poll_stops [of glue "\<lparr>calls = 0, slept = 0\<rparr>"]
      crawler_poll_stopped [of glue "\<lparr>calls = 0, slept = 0\<rparr>"]
    by (cases "crawler_poll glue \<lparr>calls = 0, slept = 0\<rparr>") auto
  finally show ?thesis by simp
qed

text \<open>
  C2, amended. The crawler poll loop returns exactly when some call from the current
  one on does not report \<open>TablesCreated == 0\<close> (it reports another value, or raises).
  When it returns normally it has slept 15 seconds after every call but the last.
  The cell as a whole fails to return exactly when every call reports
  \<open>TablesCreated == 0\<close>.
\<close>

theorem crawler_poll_terminates_iff:
  "((\<exists>r. crawler_poll glue st = Some r) \<longleftrightarrow> (\<exists>k\<ge>calls st. \<not> still_running glue k)) \<and>
   (\<forall>st'. crawler_poll glue st = Some (Inr st') \<longrightarrow>
      calls st < calls st' \<and> slept st' = slept st + 15 * (calls st' - calls st - 1)) \<and>
   (start_crawler_cell (Inr u) glue = None \<longleftrightarrow> (\<forall>k. still_running glue k))"
proof (intro conjI allI impI)
  show "start_crawler_cell (Inr u) glue = None \<longleftrightarrow> (\<forall>k. still_running glue k)"
    by (rule cell_diverges_iff)
next
  show "(\<exists>r. crawler_poll glue st = Some r) \<longleftrightarrow> (\<exists>k\<ge>calls st. \<not> still_running glue k)"
  proof
    assume "\<exists>r. crawler_poll glue st = Some r"
    then show "\<exists>k\<ge>calls st. \<not> still_running glue k"
      by (auto dest: crawler_poll_stopped)
  next
    assume "\<exists>k\<ge>calls st. \<not> still_running glue k"
    then obtain k where "calls st \<le> k" and "\<not> still_running glue k" by blast
    then have "\<not> still_running glue (calls st + (k - calls st))" by simp
    then show "\<exists>r. crawler_poll glue st = Some r" by (rule crawler_poll_stops)
  qed
next
  fix st' assume "crawler_poll glue st = Some (Inr st')"
  then show "calls st < calls st'" by (simp add: crawler_poll_slept)
next
  fix st' assume "crawler_poll glue st = Some (Inr st')"
  then show "slept st' = slept st + 15 * (calls st' - calls st - 1)"
    by (simp add: crawler_poll_slept)
qed

lemma third_poll: "crawler_poll table_on_third_poll \<lparr>calls = 0, slept = 0\<rparr>
   = Some (Inr \<lparr>calls = 3, slept = 30\<rparr>)"
  apply (subst crawler_poll.simps)
  apply (simp add: table_on_third_poll_def tables_created_metrics)
  apply (subst crawler_poll.simps)
  apply (simp add: table_on_third_poll_def tables_created_metrics)
  apply (subst crawler_poll.simps)
  apply (simp add: table_on_third_poll_def tables_created_metrics)
  done


theorem crawler_poll_terminates_iff_witness:
  "crawler_poll table_on_third_poll \<lparr>calls = 0, slept = 0\<rparr>
     = Some (Inr \<lparr>calls = 3, slept = 30\<rparr>) \<and>
   (\<exists>k\<ge>0. \<not> still_running table_on_third_poll k) \<and>
   (30 :: nat) = 0 + 15 * (3 - 0 - 1)"
  using crawler_poll_terminates_iff [of table_on_third_poll "\<lparr>calls = 0, slept = 0\<rparr>"]
    third_poll
  by auto


subsection \<open>Hyperparameters of the training job\<close>

lemmas param_defs = ParameterString_def ParameterInteger_def
  raw_data_path_param_def train_data_path_param_def val_data_path_param_def model_path_param_def
  processing_instance_type_param_def processing_instance_count_param_def
  train_test_split_ratio_param_def max_depth_param_def eta_param_def gamma_param_def
  min_child_weight_param_def objective_param_def num_round_param_def scale_pos_weight_param_def
  eval_metric_param_def training_instance_type_param_def training_instance_count_param_def
  output_path_param_def deploy_instance_type_param_def model_approval_status_param_def


lemma find_training: "find_step (pipeline b) ''Training'' = Some (training_step b)"
  by (simp add: find_step_def pipeline_def processing_step_def training_step_def)

lemma find_processing: "find_step (pipeline b) ''Processing'' = Some (processing_step b)"
  by (simp add: find_step_def pipeline_def processing_step_def)








subsection \<open>Failures of the service calls\<close>

lemma crawler_poll_two_tables:
  "crawler_poll two_tables_at_once \<lparr>calls = 0, slept = 0\<rparr> = Some (Inr \<lparr>calls = 1, slept = 0\<rparr>)"
  by (subst crawler_poll.simps) (simp add: two_tables_at_once_def tables_created_metrics)

text \<open>
  C4, as stated, fails: when no monitoring report has been delivered, the body of the
  \<open>try\<close> raises \<open>TypeError\<close>, the bare \<open>except\<close> catches it, and the cell prints the
  fallback line and ends normally.
\<close>

theorem reports_exception_caught:
  "reports_try_body ''bucket'' nothing_delivered = Inl TypeError \<and>
   monitoring_reports_cell ''bucket'' (Inr nothing_delivered)
     = Inr \<lparr>bound = None, printed = [''No monitoring reports found.'']\<rparr>"
  by (simp add: reports_try_body_def monitoring_reports_cell_def list_uris_def nothing_delivered_def)

text \<open>
  C4, amended. An exception raised by a service call itself (\<open>list_objects\<close>,
  \<open>start_crawler\<close>) leaves the cell uncaught, and so do the \<open>TypeError\<close> of the capture-file
  listing on a reply without \<open>Contents\<close> and the failed \<open>assert\<close> after a crawler that made
  two tables. The one handler of the notebooks is in the monitoring-report listing:
  whatever the reply of \<open>list_objects\<close>, that cell ends normally, and on a reply without
  \<open>Contents\<close> it prints the fallback line.
\<close>

theorem failure_handling:
  "monitoring_reports_cell b (Inl e) = Inl e \<and>
   capture_files_cell b (Inl e) = Inl e \<and>
   capture_files_cell b (Inr nothing_delivered) = Inl TypeError \<and>
   start_crawler_cell (Inl e) glue = Some (Inl e) \<and>
   start_crawler_cell (Inr ()) two_tables_at_once = Some (Inl AssertionError) \<and>
   (\<exists>out. monitoring_reports_cell b (Inr result) = Inr out) \<and>
   monitoring_reports_cell b (Inr nothing_delivered)
     = Inr \<lparr>bound = None, printed = [''No monitoring reports found.'']\<rparr>"
proof (intro conjI)
  show "start_crawler_cell (Inr ()) two_tables_at_once = Some (Inl AssertionError)"
    by (simp add: start_crawler_cell_def crawler_poll_two_tables two_tables_at_once_def
        tables_created_metrics)
  show "\<exists>out. monitoring_reports_cell b (Inr result) = Inr out"
    by (simp add: monitoring_reports_cell_def split: sum.splits)
qed (simp_all add: reports_try_body_def monitoring_reports_cell_def list_uris_def
      capture_files_cell_def nothing_delivered_def start_crawler_cell_def)


subsection \<open>What the later steps write to the object store\<close>














subsection \<open>The encoder is fit before the classifier is trained\<close>

lemma execution_from_split:
  "execution_from p past (xs @ e # ys) \<Longrightarrow> may_happen p (past @ xs) e"
proof (induction xs arbitrary: past)
  case Nil
  then show ?case by simp
next
  case (Cons x xs)
  then have "execution_from p (past @ [x]) (xs @ e # ys)" by simp
  then have "may_happen p ((past @ [x]) @ xs) e" by (rule Cons.IH)
  then show ?case by simp
qed

lemma depends_on_training: "depends_on (training_step b) = [''Processing'', ''Processing'']"
  by (simp add: depends_on_def training_step_def hyperparameters_def param_defs)

lemma depends_on_processing: "depends_on (processing_step b) = []"
  by (simp add: depends_on_def processing_step_def param_defs)

text \<open>
  C6. The \<open>train\<close> and \<open>validation\<close> channels of the training step are the URIs of the
  outputs \<open>train_data\<close> and \<open>val_data\<close> of the processing step, which in every execution
  are the values of the destinations given to the processing step for these outputs.
  Hence in every run of the pipeline the processing step (which fits the encoder) has
  completed before the training step starts.
\<close>

theorem encoder_fit_before_training:
  "inputs_of (training_step b)
     = [(''train'', Processing_output_uri ''Processing'' ''train_data''),
        (''validation'', Processing_output_uri ''Processing'' ''val_data'')] \<and>
   resolve (pipeline b) given (Processing_output_uri ''Processing'' ''train_data'')
     = value_of given (train_data_path_param b) \<and>
   resolve (pipeline b) given (Processing_output_uri ''Processing'' ''val_data'')
     = value_of given (val_data_path_param b) \<and>
   map_of (outputs_of (processing_step b)) ''train_data'' = Some (train_data_path_param b) \<and>
   map_of (outputs_of (processing_step b)) ''val_data'' = Some (val_data_path_param b) \<and>
   (execution (pipeline b) (before @ Started ''Training'' # after)
      \<longrightarrow> Completed ''Processing'' \<in> set before)"
proof (intro conjI impI)
  assume "execution (pipeline b) (before @ Started ''Training'' # after)"
  then have "may_happen (pipeline b) ([] @ before) (Started ''Training'')"
    unfolding execution_def by (rule execution_from_split)
  then show "Completed ''Processing'' \<in> set before"
    by (simp add: find_training depends_on_training)
qed (simp_all add: training_step_def processing_step_def find_processing)

theorem encoder_fit_before_training_witness:
  "execution (pipeline ''bucket'')
     ([Started ''Processing'', Completed ''Processing''] @ Started ''Training'' # [Completed ''Training''])
   \<and> Completed ''Processing'' \<in> set [Started ''Processing'', Completed ''Processing'']
   \<and> \<not> execution (pipeline ''bucket'') [Started ''Processing'', Started ''Training'']"
proof -
  have e: "execution (pipeline ''bucket'')
     ([Started ''Processing'', Completed ''Processing''] @ Started ''Training'' # [Completed ''Training''])"
    by (simp add: execution_def find_training find_processing depends_on_training
        depends_on_processing)
  have n: "\<not> execution (pipeline ''bucket'') [Started ''Processing'', Started ''Training'']"
    by (simp add: execution_def find_training find_processing depends_on_training
        depends_on_processing)
  from encoder_fit_before_training [of "''bucket''" _ "[Started ''Processing'', Completed ''Processing'']" "[Completed ''Training'']"] e n
  show ?thesis by simp
qed


subsection \<open>Deletions of remote resources\<close>







subsection \<open>The version gate\<close>

lemma py_split_no_sep: "c \<notin> set d \<Longrightarrow> py_split c d = [d]"
  by (induction d) auto

lemma py_split_piece: "c \<notin> set d \<Longrightarrow> py_split c (d @ c # r) = d # py_split c r"
  by (induction d) auto

lemma is_digit_not_dot: "is_digit c \<Longrightarrow> c \<noteq> CHR ''.''"
  by (auto simp: is_digit_def)

lemma digits_no_dot: "digits d \<Longrightarrow> CHR ''.'' \<notin> set d"
  by (auto simp: digits_def list_all_iff dest: is_digit_not_dot)

lemma py_split_dotted:
  "ds \<noteq> [] \<Longrightarrow> list_all digits ds \<Longrightarrow> py_split CHR ''.'' (dotted ds) = ds"
proof (induction ds rule: dotted.induct)
  case 1
  then show ?case by simp
next
  case (2 d)
  then show ?case by (simp add: py_split_no_sep digits_no_dot)
next
  case (3 d e es)
  then show ?case by (simp add: py_split_piece digits_no_dot)
qed

lemma horner_decimal:
  "foldl (\<lambda>a c. 10 * a + digit_of c) a s = a * 10 ^ length s + decimal s"
  by (induction s arbitrary: a) (simp_all add: algebra_simps)

lemma py_int_digits: "digits d \<Longrightarrow> py_int d = Inr (int (decimal d))"
  by (simp add: py_int_def digits_def horner_decimal)

lemma py_map_digits:
  "list_all digits ds \<Longrightarrow> py_map py_int ds = Inr (map (\<lambda>d. int (decimal d)) ds)"
  by (induction ds) (simp_all add: py_int_digits)

lemma versiontuple_dotted:
  "ds \<noteq> [] \<Longrightarrow> list_all digits ds \<Longrightarrow>
     versiontuple (dotted ds) = Inr (map (\<lambda>d. int (decimal d)) ds)"
  by (simp add: versiontuple_def py_split_dotted py_map_digits)

lemma tuple_lt_lexordp: "tuple_lt (map int xs) (map int ys) = ord_class.lexordp xs ys"
proof (induction xs arbitrary: ys)
  case Nil
  then show ?case by (cases ys) simp_all
next
  case (Cons x xs)
  then show ?case by (cases ys) auto
qed

lemma version_older_dotted:
  assumes "ds \<noteq> []" "es \<noteq> []" "list_all digits ds" "list_all digits es"
  shows "version_older (dotted ds) (dotted es) = Inr (ord_class.lexordp (map decimal ds) (map decimal es))"
proof -
  have "tuple_lt (map (\<lambda>d. int (decimal d)) ds) (map (\<lambda>d. int (decimal d)) es)
          = ord_class.lexordp (map decimal ds) (map decimal es)"
    using tuple_lt_lexordp [of "map decimal ds" "map decimal es"] by (simp add: comp_def)
  with assms show ?thesis
    by (simp add: version_older_def versiontuple_dotted)
qed

lemma required_version_dotted: "required_version = dotted [''2'', ''46'', ''0'']"
  by (simp add: required_version_def)

lemma required_digits: "list_all digits [''2'', ''46'', ''0'']"
  by (simp add: digits_def is_digit_def)

lemma required_decimal: "map decimal [''2'', ''46'', ''0''] = [2, 46, 0]"
  by (simp add: digit_of_def)

text \<open>
  C8. For version strings made of dot-separated runs of decimal digits, the comparison
  of the gate, \<open>versiontuple(a) < versiontuple(b)\<close>, raises nothing and is true exactly
  when the list of numbers of \<open>a\<close> comes before that of \<open>b\<close> in the lexicographic order
  over the natural numbers; so the upgrade-and-restart branch is taken exactly when the
  installed version is numerically below 2.46.0.
\<close>

theorem version_gate_numeric:
  assumes "ds \<noteq> []" "es \<noteq> []" "list_all digits ds" "list_all digits es"
  shows "version_older (dotted ds) (dotted es)
           = Inr (ord_class.lexordp (map decimal ds) (map decimal es)) \<and>
         version_gate (dotted ds)
           = Inr (if ord_class.lexordp (map decimal ds) [2, 46, 0] then Upgrade_and_restart else Proceed)"
proof
  show "version_older (dotted ds) (dotted es) = Inr (ord_class.lexordp (map decimal ds) (map decimal es))"
    using assms by (rule version_older_dotted)
next
  have "version_older (dotted ds) required_version
          = Inr (ord_class.lexordp (map decimal ds) (map decimal [''2'', ''46'', ''0'']))"
    unfolding required_version_dotted
    using assms(1) _ assms(3) required_digits by (rule version_older_dotted) simp
  then have "version_older (dotted ds) required_version
          = Inr (ord_class.lexordp (map decimal ds) [2, 46, 0])"
    by (simp only: required_decimal)
  then show "version_gate (dotted ds)
           = Inr (if ord_class.lexordp (map decimal ds) [2, 46, 0] then Upgrade_and_restart else Proceed)"
    by (simp add: version_gate_def)
qed

theorem version_gate_numeric_witness:
  "version_older ''2.9.0'' ''2.46.0'' = Inr True \<and>
   version_gate ''2.9.0'' = Inr Upgrade_and_restart \<and>
   version_older ''2.46.0'' ''2.46.0'' = Inr False"
  using version_gate_numeric [of "[''2'', ''9'', ''0'']" "[''2'', ''46'', ''0'']"]
    version_gate_numeric [of "[''2'', ''46'', ''0'']" "[''2'', ''46'', ''0'']"]
  by (simp add: digits_def is_digit_def digit_of_def)

subsection \<open>Feature reordering\<close>

text \<open>
  C9. On a non-empty \<open>features\<close> list the two statements produce the original last
  element followed by all the others in their original order; the result has the
  length and the multiset of elements of the original. On the empty list the cell
  raises \<open>IndexError\<close>.
\<close>

theorem reorder_features_spec:
  "reorder_features ([] :: 'a list) = Inl IndexError \<and>
   ((xs :: 'a list) \<noteq> [] \<longrightarrow>
      reorder_features xs = Inr (last xs # butlast xs) \<and>
      length (last xs # butlast xs) = length xs \<and>
      mset (last xs # butlast xs) = mset xs)"
proof (intro conjI impI)
  show "reorder_features ([] :: 'a list) = Inl IndexError"
    by (simp add: reorder_features_def py_getitem_Nil)
next
  assume "xs \<noteq> []"
  then show "reorder_features xs = Inr (last xs # butlast xs)"
    by (rule reorder_features_nonempty)
next
  assume "xs \<noteq> []"
  then show "length (last xs # butlast xs) = length xs"
    by (cases xs rule: rev_cases) simp_all
next
  assume "xs \<noteq> []"
  then show "mset (last xs # butlast xs) = mset xs"
    by (rule mset_rotate)
qed

theorem reorder_features_spec_witness:
  "reorder_features [''wind_speed'', ''rpm_blade'', ''breakdown'']
     = Inr [''breakdown'', ''wind_speed'', ''rpm_blade''] \<and>
   length [''breakdown'', ''wind_speed'', ''rpm_blade''] = (3::nat) \<and>
   mset [''breakdown'', ''wind_speed'', ''rpm_blade'']
     = mset [''wind_speed'', ''rpm_blade'', ''breakdown'']"
  using reorder_features_spec [of "[''wind_speed'', ''rpm_blade'', ''breakdown'']"]
  by simp

subsection \<open>Model paths on the deploy-from-registry path\<close>

lemma rfind_from_absent: "c \<notin> set q \<Longrightarrow> rfind_from c q i found = found"
  by (induction q arbitrary: i) auto

lemma rfind_from_last:
  "c \<notin> set q \<Longrightarrow> rfind_from c (p @ c # q) i found = i + int (length p)"
  by (induction p arbitrary: i found) (simp_all add: rfind_from_absent)

lemma py_rfind_last: "c \<notin> set q \<Longrightarrow> py_rfind (p @ c # q) c = int (length p)"
  by (simp add: py_rfind_def rfind_from_last)

lemma py_rfind_absent: "c \<notin> set s \<Longrightarrow> py_rfind s c = -1"
  by (simp add: py_rfind_def rfind_from_absent)

lemma parent_prefix_last:
  assumes "CHR ''/'' \<notin> set q"
  shows "parent_prefix (p @ CHR ''/'' # q) = p @ ''/''"
proof -
  have "dropWhile (\<lambda>c. c \<noteq> CHR ''/'') (rev q @ CHR ''/'' # rev p) = CHR ''/'' # rev p"
    using assms by (subst dropWhile_append2) auto
  then show ?thesis by (simp add: parent_prefix_def)
qed

lemma basename_last:
  assumes "CHR ''/'' \<notin> set q"
  shows "basename (p @ CHR ''/'' # q) = q"
proof -
  have "takeWhile (\<lambda>c. c \<noteq> CHR ''/'') (rev q @ CHR ''/'' # rev p) = rev q"
    using assms by (subst takeWhile_append2) auto
  then show ?thesis by (simp add: basename_def)
qed

lemma sklearn_model_path_last:
  "CHR ''/'' \<notin> set q \<Longrightarrow> sklearn_model_path (p @ CHR ''/'' # q) = p @ ''/''"
  by (simp add: sklearn_model_path_def py_rfind_last py_slice_to_def)

lemma xgboost_model_path_last:
  "CHR ''/'' \<notin> set q \<Longrightarrow>
     xgboost_model_path (p @ CHR ''/'' # q) xg = take (length p) xg @ ''/''"
  by (simp add: xgboost_model_path_def py_rfind_last py_slice_to_def)

lemma take_is_prefix_iff:
  "take n (p' @ x # q') = p' \<longleftrightarrow> n = length p'"
proof
  assume h: "take n (p' @ x # q') = p'"
  have "length (take n (p' @ x # q')) = min n (Suc (length p' + length q'))" by simp
  with h have "length p' = min n (Suc (length p' + length q'))" by simp
  then show "n = length p'" by arith
qed simp


lemma parent_prefix_no_slash: "CHR ''/'' \<notin> set s \<Longrightarrow> parent_prefix s = []"
  by (auto simp: parent_prefix_def)

lemma xgboost_iff_no_slash:
  assumes "CHR ''/'' \<in> set sk" and "CHR ''/'' \<notin> set xg"
  shows "xgboost_model_path sk xg = parent_prefix xg
           \<longleftrightarrow> py_rfind xg CHR ''/'' = py_rfind sk CHR ''/''"
proof -
  from assms(1) obtain p q where sk: "sk = p @ CHR ''/'' # q" and q: "CHR ''/'' \<notin> set q"
    by (auto dest: split_list_last)
  have "xgboost_model_path sk xg \<noteq> parent_prefix xg"
    by (simp add: xgboost_model_path_def parent_prefix_no_slash assms(2))
  moreover have "py_rfind xg CHR ''/'' \<noteq> py_rfind sk CHR ''/''"
    by (simp add: sk py_rfind_last q py_rfind_absent assms(2))
  ultimately show ?thesis by simp
qed

text \<open>
  C10, as stated, fails: when the scikit-learn URI has no \<open>/\<close>, \<open>rfind\<close> gives \<open>-1\<close> and
  the slice drops the last character of the XGBoost URI. For \<open>sklearn_model_data = 'model'\<close>
  and \<open>xgboost_model_data = 'a/'\<close> the result \<open>'a/'\<close> is the parent-directory prefix of
  the XGBoost URI although the last \<open>/\<close> of the two is not at the same index (\<open>1\<close> and
  \<open>-1\<close>).
\<close>

theorem xgboost_path_without_slash:
  "py_rfind ''model'' CHR ''/'' = -1 \<and>
   py_rfind ''a/'' CHR ''/'' = 1 \<and>
   xgboost_model_path ''model'' ''a/'' = ''a/'' \<and>
   parent_prefix ''a/'' = ''a/'' \<and>
   xgboost_model_path ''model'' ''a/'' = parent_prefix ''a/'' \<and>
   py_rfind ''a/'' CHR ''/'' \<noteq> py_rfind ''model'' CHR ''/''"
  by (simp add: xgboost_model_path_def py_rfind_def py_slice_to_def parent_prefix_def)

text \<open>
  C10, amended. For a scikit-learn artifact URI that contains \<open>/\<close>, \<open>sklearn_model_path\<close>
  is the URI cut just after its last \<open>/\<close>, and appending the base name gives the URI
  back. \<open>xgboost_model_path\<close> is the XGBoost URI cut at the index of the last \<open>/\<close> of the
  scikit-learn URI; for such a scikit-learn URI it is the parent-directory prefix of the
  XGBoost artifact exactly when the last \<open>/\<close> of the two URIs is at the same index,
  which is not so for every pair of URIs.
\<close>

theorem model_paths_spec:
  assumes "CHR ''/'' \<in> set sk"
  shows "sklearn_model_path sk = parent_prefix sk \<and>
         sklearn_model_path sk @ basename sk = sk \<and>
         xgboost_model_path sk xg = py_slice_to xg (py_rfind sk CHR ''/'') @ ''/'' \<and>
         (xgboost_model_path sk xg = parent_prefix xg
            \<longleftrightarrow> py_rfind xg CHR ''/'' = py_rfind sk CHR ''/'') \<and>
         xgboost_model_path ''s3://b/out/skl/model.tar.gz'' ''s3://b/out/training-job/model.tar.gz''
           \<noteq> parent_prefix ''s3://b/out/training-job/model.tar.gz''"
proof -
  from assms obtain p q where sk: "sk = p @ CHR ''/'' # q" and q: "CHR ''/'' \<notin> set q"
    by (auto dest: split_list_last)
  have a: "sklearn_model_path sk = parent_prefix sk"
    by (simp add: sk sklearn_model_path_last parent_prefix_last q)
  have b: "sklearn_model_path sk @ basename sk = sk"
    by (simp add: sk sklearn_model_path_last basename_last q)
  have c: "xgboost_model_path sk xg = py_slice_to xg (py_rfind sk CHR ''/'') @ ''/''"
    by (simp add: xgboost_model_path_def)
  have d: "xgboost_model_path sk xg = parent_prefix xg
             \<longleftrightarrow> py_rfind xg CHR ''/'' = py_rfind sk CHR ''/''"
    if "CHR ''/'' \<in> set xg"
  proof -
    from that obtain p' q' where xg: "xg = p' @ CHR ''/'' # q'" and q': "CHR ''/'' \<notin> set q'"
      by (auto dest: split_list_last)
    have "xgboost_model_path sk xg = parent_prefix xg \<longleftrightarrow> take (length p) xg = p'"
      by (simp add: sk xgboost_model_path_last q) (simp add: xg parent_prefix_last q')
    also have "\<dots> \<longleftrightarrow> length p = length p'"
      unfolding xg by (rule take_is_prefix_iff)
    also have "\<dots> \<longleftrightarrow> py_rfind xg CHR ''/'' = py_rfind sk CHR ''/''"
      by (auto simp: sk xg py_rfind_last q q')
    finally show ?thesis .
  qed
  have e: "xgboost_model_path ''s3://b/out/skl/model.tar.gz''
             ''s3://b/out/training-job/model.tar.gz''
           \<noteq> parent_prefix ''s3://b/out/training-job/model.tar.gz''"
    by (simp add: xgboost_model_path_def py_rfind_def py_slice_to_def parent_prefix_def)
  have d': "xgboost_model_path sk xg = parent_prefix xg
              \<longleftrightarrow> py_rfind xg CHR ''/'' = py_rfind sk CHR ''/''"
  proof (cases "CHR ''/'' \<in> set xg")
    case True
    then show ?thesis by (rule d)
  next
    case False
    with assms show ?thesis by (rule xgboost_iff_no_slash)
  qed
  from a b c d' e show ?thesis by blast
qed

theorem model_paths_spec_witness:
  "sklearn_model_path ''s3://b/out/skl/model.tar.gz'' = ''s3://b/out/skl/'' \<and>
   ''s3://b/out/skl/'' @ basename ''s3://b/out/skl/model.tar.gz'' = ''s3://b/out/skl/model.tar.gz'' \<and>
   xgboost_model_path ''s3://b/out/skl/model.tar.gz'' ''s3://b/out/training-job/model.tar.gz''
     = ''s3://b/out/tra/'' \<and>
   parent_prefix ''s3://b/out/training-job/model.tar.gz'' = ''s3://b/out/training-job/'' \<and>
   py_rfind ''s3://b/out/skl/model.tar.gz'' CHR ''/'' = 14 \<and>
   py_rfind ''s3://b/out/training-job/model.tar.gz'' CHR ''/'' = 23"
  using model_paths_spec [of "''s3://b/out/skl/model.tar.gz''" "''s3://b/out/training-job/model.tar.gz''"]
  by (simp add: py_rfind_def py_slice_to_def parent_prefix_def basename_def)

end
